theory Spec2Isabelle
  imports Main "HOL-Library.Signed_Division"
begin

unbundle bit_operations_syntax

section \<open>Machine arithmetic of the driver\<close>

text \<open>
  The driver (src/xfmc/idt.c) computes with C's \<open>int\<close>, \<open>unsigned int\<close>/\<open>u32\<close> and
  \<open>u64\<close>. Values are modelled as mathematical integers and every conversion the C
  code performs is written out: \<open>to_u32\<close> and \<open>to_u64\<close> reduce modulo the width,
  \<open>to_s32\<close> reads the low 32 bits as two's complement (the kernel is built with
  wrapping signed arithmetic). C's \<open>/\<close> and \<open>%\<close> on signed operands truncate towards
  zero: \<open>sdiv\<close> and \<open>smod\<close>. On unsigned operands they are \<open>div\<close> and \<open>mod\<close>.
\<close>

definition to_u8 :: "int \<Rightarrow> int" where
  "to_u8 x = x mod 2 ^ 8"

definition to_u16 :: "int \<Rightarrow> int" where
  "to_u16 x = x mod 2 ^ 16"

definition to_u32 :: "int \<Rightarrow> int" where
  "to_u32 x = x mod 2 ^ 32"

definition to_u64 :: "int \<Rightarrow> int" where
  "to_u64 x = x mod 2 ^ 64"

definition to_s32 :: "int \<Rightarrow> int" where
  "to_s32 x = (x + 2 ^ 31) mod 2 ^ 32 - 2 ^ 31"

text \<open>\<open>abs\<close> on \<open>int\<close>: the magnitude, wrapped back into \<open>int\<close>.\<close>

definition c_abs :: "int \<Rightarrow> int" where
  "c_abs x = to_s32 \<bar>x\<bar>"

section \<open>Constants\<close>

definition IDT_8T49N24X_XTAL_FREQ :: int where
  "IDT_8T49N24X_XTAL_FREQ = 40000000"

definition IDT_8T49N24X_FVCO_MAX :: int where
  "IDT_8T49N24X_FVCO_MAX = 4000000000"

definition IDT_8T49N24X_FVCO_MIN :: int where
  "IDT_8T49N24X_FVCO_MIN = 3000000000"

definition IDT_8T49N24X_FOUT_MAX :: int where
  "IDT_8T49N24X_FOUT_MAX = 400000000"

definition IDT_8T49N24X_FOUT_MIN :: int where
  "IDT_8T49N24X_FOUT_MIN = 8000"

definition IDT_8T49N24X_FIN_MAX :: int where
  "IDT_8T49N24X_FIN_MAX = 875000000"

definition IDT_8T49N24X_FIN_MIN :: int where
  "IDT_8T49N24X_FIN_MIN = 8000"

definition IDT_8T49N24X_FPD_MAX :: int where
  "IDT_8T49N24X_FPD_MAX = 128000"

definition IDT_8T49N24X_P_MAX :: int where
  "IDT_8T49N24X_P_MAX = 4194304"

definition IDT_8T49N24X_M_MAX :: int where
  "IDT_8T49N24X_M_MAX = 16777216"

section \<open>Faults\<close>

text \<open>
  Where the C code has no defined result the model returns a fault: a division whose
  divisor is zero, a store past the end of the caller's divider table, and the use of
  an address no \<open>case\<close> of a \<open>switch\<close> assigned. An automatic variable that is read
  before any assignment is kept as a value, \<open>None\<close>.
\<close>

datatype fault = DivisionByZero | DivtblOverrun | UnassignedAddress

section \<open>The divider table: \<open>idt_get_int_divtable\<close>\<close>

definition ns1_opts :: "int list" where
  "ns1_opts = [1, 4, 5, 6]"

text \<open>
  The inner \<open>for\<close> loop, once per remaining entry of \<open>ns1_opts\<close>: the candidate
  \<open>outdiv_tmp\<close> (an \<open>int\<close> product), its VCO frequency \<open>vco_tmp\<close> (a \<open>u32\<close>), and the
  store. The table is the list of values stored so far through \<open>divtbl_ptr\<close>;
  \<open>divtbl_len\<close> is the size of the array the caller passed.
\<close>

definition idt_outdiv_tmp :: "int \<Rightarrow> int \<Rightarrow> int" where
  "idt_outdiv_tmp ns1 ns2_tmp = (if ns2_tmp = 0 then ns1 else to_s32 (ns1 * ns2_tmp * 2))"

definition idt_vco_tmp :: "int \<Rightarrow> int \<Rightarrow> int" where
  "idt_vco_tmp freq_out outdiv_tmp = to_u32 (freq_out * outdiv_tmp)"

fun divtbl_row :: "int \<Rightarrow> nat \<Rightarrow> int \<Rightarrow> int list \<Rightarrow> int list \<Rightarrow> fault + int list" where
  "divtbl_row freq_out divtbl_len ns2_tmp [] divtbl = Inr divtbl"
| "divtbl_row freq_out divtbl_len ns2_tmp (ns1 # opts) divtbl =
     (let outdiv_tmp = idt_outdiv_tmp ns1 ns2_tmp;
          vco_tmp = idt_vco_tmp freq_out outdiv_tmp
      in if vco_tmp \<le> IDT_8T49N24X_FVCO_MAX \<and> vco_tmp \<ge> IDT_8T49N24X_FVCO_MIN
         then (if length divtbl < divtbl_len
               then divtbl_row freq_out divtbl_len ns2_tmp opts (divtbl @ [outdiv_tmp])
               else Inl DivtblOverrun)
         else divtbl_row freq_out divtbl_len ns2_tmp opts divtbl)"

text \<open>The \<open>while (ns2_tmp <= ns2_max)\<close> loop.\<close>

function divtbl_scan ::
  "int \<Rightarrow> nat \<Rightarrow> int list \<Rightarrow> int \<Rightarrow> int \<Rightarrow> int list \<Rightarrow> fault + int list" where
  "divtbl_scan freq_out divtbl_len opts ns2_tmp ns2_max divtbl =
     (if ns2_tmp \<le> ns2_max
      then (case divtbl_row freq_out divtbl_len ns2_tmp opts divtbl of
              Inl e \<Rightarrow> Inl e
            | Inr divtbl' \<Rightarrow>
                divtbl_scan freq_out divtbl_len opts (ns2_tmp + 1) ns2_max divtbl')
      else Inr divtbl)"
  by pat_completeness auto
termination
  by (relation "measure (\<lambda>(f, l, opts, n, m, t). nat (m + 1 - n))") auto

declare divtbl_scan.simps [simp del]

text \<open>
  \<open>outdiv_min\<close> and \<open>outdiv_max\<close> are computed in 64-bit arithmetic (the VCO limits do
  not fit \<open>int\<close>) and stored into \<open>int\<close>. The result is the table; the C function
  returns its length \<open>cnt\<close>.
\<close>

definition idt_outdiv_min :: "int \<Rightarrow> int" where
  "idt_outdiv_min freq_out =
     to_s32 (IDT_8T49N24X_FVCO_MIN sdiv freq_out
             + (if IDT_8T49N24X_FVCO_MIN smod freq_out = 0 then 0 else 1))"

definition idt_outdiv_max :: "int \<Rightarrow> int" where
  "idt_outdiv_max freq_out = to_s32 (IDT_8T49N24X_FVCO_MAX sdiv freq_out)"

definition idt_ns2_range :: "int \<Rightarrow> nat \<Rightarrow> int \<times> int" where
  "idt_ns2_range freq_out index =
     (let outdiv_min = idt_outdiv_min freq_out;
          outdiv_max = idt_outdiv_max freq_out
      in if list_ex (\<lambda>n. n = outdiv_min \<or> n = outdiv_max) (drop index ns1_opts)
         then (0, 0)
         else (let ns2_min = outdiv_min sdiv (ns1_opts ! 3) sdiv 2
                       + (if (outdiv_min sdiv (ns1_opts ! 3)) smod 2 = 0 then 0 else 1);
                   ns2_max = outdiv_max sdiv (ns1_opts ! index) sdiv 2
               in (ns2_min, if ns2_max = 0 then 1 else ns2_max)))"

definition idt_get_int_divtable :: "int \<Rightarrow> nat \<Rightarrow> bool \<Rightarrow> fault + int list" where
  "idt_get_int_divtable freq_out divtbl_len bypass =
     (if freq_out = 0 then Inl DivisionByZero
      else (let index = (if bypass then 0 else 1);
                (ns2_min, ns2_max) = idt_ns2_range freq_out index
            in divtbl_scan freq_out divtbl_len (drop index ns1_opts) ns2_min ns2_max []))"

section \<open>The settings: \<open>idt_cal_settings\<close>\<close>

record idt_settings =
  dsm_frac :: int
  m1_x :: "int option"
  pre_x :: "int option"
  los_x :: int
  n_qx :: int
  nfrac_qx :: int
  ns2_qx :: "int option"
  dsm_int :: int
  ns1_qx :: "int option"

text \<open>"Find the highest divider", starting from \<open>max_div = 0\<close>.\<close>

definition idt_max_div :: "int list \<Rightarrow> int" where
  "idt_max_div divtbl = fold (\<lambda>d max_div. if max_div < d then d else max_div) divtbl 0"

text \<open>The VCO frequency \<open>fvco = freq_out*max_div\<close>: an \<open>int\<close> product stored as \<open>unsigned int\<close>.\<close>

definition idt_fvco :: "int \<Rightarrow> int \<Rightarrow> int" where
  "idt_fvco freq_out max_div = to_u32 (freq_out * max_div)"

text \<open>
  The three \<open>if\<close> statements that choose the NS1 register value, in the order of the
  source. \<open>ns1\<close> is declared without an initial value.
\<close>

definition idt_ns1 :: "int \<Rightarrow> int option" where
  "idt_ns1 max_div =
     (let ns1 = None;
          ns1 = (if max_div = 4 \<or> max_div smod 8 = 0 then Some 2 else ns1);
          ns1 = (if max_div = 5 \<or> max_div smod 10 = 0 then Some 0 else ns1);
          ns1 = (if max_div = 6 \<or> max_div smod 12 = 0 then Some 1 else ns1)
      in ns1)"

definition idt_ns1_ratio :: "int \<Rightarrow> int" where
  "idt_ns1_ratio ns1 =
     (if ns1 = 0 then 5 else if ns1 = 1 then 6 else if ns1 = 2 then 4
      else if ns1 = 3 then 1 else 6)"

definition idt_ns2 :: "int \<Rightarrow> int option \<Rightarrow> int option" where
  "idt_ns2 max_div ns1 =
     map_option (\<lambda>n. to_u16 (max_div sdiv idt_ns1_ratio n sdiv 2)) ns1"

text \<open>The output divider: \<open>(n_q2, nfrac_q2)\<close>, both \<open>u32\<close>.\<close>

definition idt_outdiv_split :: "int \<Rightarrow> int \<times> int" where
  "idt_outdiv_split max_div =
     (let frac_numerator = (if max_div AND 1 \<noteq> 0 then drop_bit 1 268435456 else 0)
      in if \<not> (max_div AND 1 \<noteq> 0)
         then (to_u32 (drop_bit 1 max_div), 0)
         else (to_u32 (drop_bit 1 (to_s32 (max_div + 1))), frac_numerator))"

text \<open>
  The upper loop feedback divider \<open>(dsm_int, dsm_frac)\<close>, from the \<open>unsigned int\<close>
  \<open>fvco\<close> and the crystal frequency.
\<close>

definition idt_dsm_split :: "int \<Rightarrow> int \<times> int" where
  "idt_dsm_split fvco =
     (let UpperFBDiv = fvco div (2 * IDT_8T49N24X_XTAL_FREQ);
          UpperFBDiv_rem = fvco mod (2 * IDT_8T49N24X_XTAL_FREQ);
          dsm_int = to_s32 UpperFBDiv;
          dsm_frac = to_u64 (to_u64 (UpperFBDiv_rem * 2048) + drop_bit 1 78125);
          dsm_frac = dsm_frac div 78125
      in (dsm_int, dsm_frac))"

text \<open>
  One pass of the feedback loop body: \<open>m1\<close> (a \<open>u64\<close>) for the divider \<open>i\<close>, and the
  error \<open>error_tmp\<close> (an \<open>int\<close>) for that \<open>i\<close> and \<open>m1\<close>; \<open>temp1\<close> is the divisor of the
  error.
\<close>

definition scan_m1 :: "int \<Rightarrow> int \<Rightarrow> int \<Rightarrow> int" where
  "scan_m1 fvco freq_in i =
     (let m1 = to_u64 (fvco * i);
          m1 = to_u64 (m1 + freq_in div 2)
      in m1 div to_u64 freq_in)"

definition scan_temp1 :: "int \<Rightarrow> int \<Rightarrow> int" where
  "scan_temp1 freq_in i = to_u64 (i * freq_in) div 1000"

definition scan_error_tmp :: "int \<Rightarrow> int \<Rightarrow> int \<Rightarrow> int \<Rightarrow> int" where
  "scan_error_tmp fvco freq_in i m1 =
     (let temp = to_u64 (to_u64 (to_u64 (fvco * i) - to_u64 (m1 * freq_in)) * 1000000);
          temp1 = scan_temp1 freq_in i;
          temp = temp div temp1
      in to_s32 temp)"

text \<open>
  The loop \<open>for (i = p_min; i <= IDT_8T49N24X_P_MAX; i++)\<close> over the state
  \<open>(error, m1_default, p_default)\<close>; the last two have no initial value.
\<close>

function idt_feedback_scan ::
  "int \<Rightarrow> int \<Rightarrow> int \<Rightarrow> int \<times> int option \<times> int option
     \<Rightarrow> fault + (int \<times> int option \<times> int option)" where
  "idt_feedback_scan fvco freq_in i (error, m1_default, p_default) =
     (if i \<le> IDT_8T49N24X_P_MAX
      then (if to_u64 freq_in = 0 then Inl DivisionByZero
            else (let m1 = scan_m1 fvco freq_in i
                  in if m1 < IDT_8T49N24X_M_MAX
                     then (if scan_temp1 freq_in i = 0 then Inl DivisionByZero
                           else (let error_tmp = scan_error_tmp fvco freq_in i m1
                                 in if c_abs error_tmp < error \<or> error_tmp = 0
                                    then (if error_tmp = 0
                                          then Inr (c_abs error_tmp, Some (to_s32 m1), Some i)
                                          else idt_feedback_scan fvco freq_in (i + 1)
                                                 (c_abs error_tmp, Some (to_s32 m1), Some i))
                                    else idt_feedback_scan fvco freq_in (i + 1)
                                           (error, m1_default, p_default)))
                     else Inr (error, m1_default, p_default)))
      else Inr (error, m1_default, p_default))"
  by pat_completeness auto
termination
  by (relation "measure (\<lambda>(v, f, i, s). nat (IDT_8T49N24X_P_MAX + 1 - i))") auto

declare idt_feedback_scan.simps [simp del]

text \<open>
  Loss of signal: an unsigned division, stored into \<open>int\<close>, then \<open>+ 3\<close> and the lower
  limit 6.
\<close>

definition idt_los :: "int \<Rightarrow> int \<Rightarrow> fault + int" where
  "idt_los fvco freq_in =
     (if to_u32 freq_in = 0 then Inl DivisionByZero
      else (let los = to_s32 (fvco div 8 div to_u32 freq_in);
                los = to_s32 (los + 3)
            in Inr (if los < 6 then 6 else los)))"

definition idt_cal_settings :: "int \<Rightarrow> int \<Rightarrow> fault + idt_settings" where
  "idt_cal_settings freq_in freq_out =
     (case idt_get_int_divtable freq_out 20 False of
        Inl e \<Rightarrow> Inl e
      | Inr divtbl \<Rightarrow>
          (let max_div = idt_max_div divtbl;
               fvco = idt_fvco freq_out max_div;
               ns1 = idt_ns1 max_div;
               ns2 = idt_ns2 max_div ns1;
               (n_q2, nfrac_q2) = idt_outdiv_split max_div;
               (dsm_int, dsm_frac) = idt_dsm_split fvco;
               p_min = freq_in sdiv IDT_8T49N24X_FPD_MAX
           in case idt_feedback_scan fvco freq_in p_min (99999999, None, None) of
                Inl e \<Rightarrow> Inl e
              | Inr (error, m1_default, p_default) \<Rightarrow>
                  (case idt_los fvco freq_in of
                     Inl e \<Rightarrow> Inl e
                   | Inr los \<Rightarrow>
                       Inr \<lparr> dsm_frac = to_u32 dsm_frac,
                             m1_x = map_option to_u32 m1_default,
                             pre_x = map_option to_u32 p_default,
                             los_x = to_u32 los,
                             n_qx = n_q2,
                             nfrac_qx = nfrac_q2,
                             ns2_qx = ns2,
                             dsm_int = to_u16 dsm_int,
                             ns1_qx = map_option to_u8 ns1 \<rparr>)))"

section \<open>Register access\<close>

text \<open>
  The bus is the kernel's regmap, which is not part of this driver: it is a parameter,
  a pair of operations on a bus state \<open>'b\<close>. \<open>reg_write\<close> returns the status (0 or a
  negative errno) and the new bus state; \<open>reg_read\<close> returns the value read, \<open>None\<close>
  when the read fails and leaves its target unassigned. A value that is itself
  unassigned is written as \<open>None\<close>.
\<close>

record 'b regmap_ops =
  reg_write :: "'b \<Rightarrow> int \<Rightarrow> int option \<Rightarrow> int \<times> 'b"
  reg_read :: "'b \<Rightarrow> int \<Rightarrow> int option \<times> 'b"

text \<open>
  The device handle: the bus state, and the writes issued so far in order, each with
  its address, value and status.
\<close>

record 'b idts =
  regmap :: 'b
  issued :: "(int \<times> int option \<times> int) list"

definition idt_write_reg ::
  "'b regmap_ops \<Rightarrow> 'b idts \<Rightarrow> int \<Rightarrow> int option \<Rightarrow> int \<times> 'b idts" where
  "idt_write_reg ops priv addr val =
     (let a = to_u16 addr;
          v = map_option to_u8 val;
          (err, b) = reg_write ops (regmap priv) a v
      in (err, priv\<lparr>regmap := b, issued := issued priv @ [(a, v, err)]\<rparr>))"

definition idt_pre_div ::
  "'b regmap_ops \<Rightarrow> 'b idts \<Rightarrow> int option \<Rightarrow> int \<Rightarrow> int \<times> 'b idts" where
  "idt_pre_div ops idt val input =
     (let addr = (if input = 1 then 14 else 11);
          (ret, idt) = idt_write_reg ops idt addr (map_option (\<lambda>v. drop_bit 16 v AND 31) val);
          (ret, idt) = idt_write_reg ops idt (addr + 1) (map_option (drop_bit 8) val);
          (ret, idt) = idt_write_reg ops idt (addr + 2) (map_option (\<lambda>v. v AND 255) val)
      in (ret, idt))"

definition idt_m1_feedback ::
  "'b regmap_ops \<Rightarrow> 'b idts \<Rightarrow> int option \<Rightarrow> int \<Rightarrow> int \<times> 'b idts" where
  "idt_m1_feedback ops idt val input =
     (let addr = (if input = 1 then 17 else 20);
          (ret, idt) = idt_write_reg ops idt addr (map_option (drop_bit 16) val);
          (ret, idt) = idt_write_reg ops idt (addr + 1) (map_option (drop_bit 8) val);
          (ret, idt) = idt_write_reg ops idt (addr + 2) (map_option (\<lambda>v. v AND 255) val)
      in (ret, idt))"

definition idt_dsm_int_reg :: "'b regmap_ops \<Rightarrow> 'b idts \<Rightarrow> int \<Rightarrow> int \<times> 'b idts" where
  "idt_dsm_int_reg ops idt val =
     (let (ret, idt) = idt_write_reg ops idt 37 (Some (drop_bit 8 val AND 1));
          (ret, idt) = idt_write_reg ops idt 38 (Some (val AND 255))
      in (ret, idt))"

definition idt_dsm_frac_reg :: "'b regmap_ops \<Rightarrow> 'b idts \<Rightarrow> int \<Rightarrow> int \<times> 'b idts" where
  "idt_dsm_frac_reg ops idt val =
     (let (ret, idt) = idt_write_reg ops idt 40 (Some (drop_bit 16 val AND 31));
          (ret, idt) = idt_write_reg ops idt 41 (Some (drop_bit 8 val));
          (ret, idt) = idt_write_reg ops idt 42 (Some (val AND 255))
      in (ret, idt))"

definition idt_outdiv_int_addr :: "int \<Rightarrow> int option" where
  "idt_outdiv_int_addr output =
     (if output = 0 then Some 63 else if output = 1 then Some 66
      else if output = 2 then Some 69 else if output = 3 then Some 72 else None)"

definition idt_outdiv_int ::
  "'b regmap_ops \<Rightarrow> 'b idts \<Rightarrow> int \<Rightarrow> int \<Rightarrow> fault + (int \<times> 'b idts)" where
  "idt_outdiv_int ops idt val output =
     (case idt_outdiv_int_addr output of
        None \<Rightarrow> Inl UnassignedAddress
      | Some addr \<Rightarrow>
          (let (ret, idt) = idt_write_reg ops idt addr (Some (drop_bit 16 val AND 3));
               (ret, idt) = idt_write_reg ops idt (addr + 1) (Some (drop_bit 8 val));
               (ret, idt) = idt_write_reg ops idt (addr + 2) (Some (val AND 255))
           in Inr (ret, idt)))"

definition idt_outdiv_frac_addr :: "int \<Rightarrow> int option" where
  "idt_outdiv_frac_addr output =
     (if output = 0 then Some 0 else if output = 1 then Some 87
      else if output = 2 then Some 91 else if output = 3 then Some 95 else None)"

definition idt_outdiv_frac ::
  "'b regmap_ops \<Rightarrow> 'b idts \<Rightarrow> int \<Rightarrow> int \<Rightarrow> fault + (int \<times> 'b idts)" where
  "idt_outdiv_frac ops idt val output =
     (case idt_outdiv_frac_addr output of
        None \<Rightarrow> Inl UnassignedAddress
      | Some addr \<Rightarrow>
          (let (ret, idt) = idt_write_reg ops idt addr (Some (drop_bit 24 val AND 15));
               (ret, idt) = idt_write_reg ops idt (addr + 1) (Some (drop_bit 16 val));
               (ret, idt) = idt_write_reg ops idt (addr + 2) (Some (drop_bit 8 val));
               (ret, idt) = idt_write_reg ops idt (addr + 3) (Some (val AND 255))
           in Inr (ret, idt)))"

text \<open>Read, clear the bits of the mask \<open>msk\<close>, set them from \<open>val\<close>, write back.\<close>

definition idt_modify_reg ::
  "'b regmap_ops \<Rightarrow> 'b idts \<Rightarrow> int \<Rightarrow> int \<Rightarrow> int \<Rightarrow> int \<times> 'b idts" where
  "idt_modify_reg ops idt addr val msk =
     (let (data, b) = reg_read ops (regmap idt) (to_u16 addr);
          idt = idt\<lparr>regmap := b\<rparr>;
          data = map_option (\<lambda>d. to_u32 d AND to_u32 (NOT msk)) data;
          data = map_option (\<lambda>d. d OR (val AND msk)) data
      in idt_write_reg ops idt addr data)"

definition idt_set_mode :: "'b regmap_ops \<Rightarrow> 'b idts \<Rightarrow> bool \<Rightarrow> int \<times> 'b idts" where
  "idt_set_mode ops idt synthesizer =
     (let val = (if synthesizer then 1 OR push_bit 4 1 OR push_bit 5 1
                 else 0 OR push_bit 5 1);
          msk = 51;
          (ret, idt) = idt_modify_reg ops idt 10 val msk;
          val = (if synthesizer then push_bit 3 1 else 0);
          msk = push_bit 3 1
      in idt_modify_reg ops idt 105 val msk)"

definition idt_in_monitor_ctrl ::
  "'b regmap_ops \<Rightarrow> 'b idts \<Rightarrow> int \<Rightarrow> int \<Rightarrow> int \<times> 'b idts" where
  "idt_in_monitor_ctrl ops idt val input =
     (let addr = (if input = 1 then 116 else 113);
          (ret, idt) = idt_write_reg ops idt addr (Some (drop_bit 16 val AND 1));
          (ret, idt) = idt_write_reg ops idt (addr + 1) (Some (drop_bit 8 val));
          (ret, idt) = idt_write_reg ops idt (addr + 2) (Some (val AND 255))
      in (ret, idt))"

definition idt_ref_input ::
  "'b regmap_ops \<Rightarrow> 'b idts \<Rightarrow> int \<Rightarrow> bool \<Rightarrow> int \<times> 'b idts" where
  "idt_ref_input ops idt input enable =
     (let shift = (if input = 1 then 5 else 4);
          val = (if enable then 0 else push_bit shift 1);
          msk = push_bit shift 1
      in idt_modify_reg ops idt 10 val msk)"

section \<open>\<open>set_clock\<close>\<close>

text \<open>
  The two range tests return 1 without a write. \<open>freq_in\<close> and \<open>freq_out\<close> are \<open>u32\<close>
  here and become \<open>int\<close> in the call of \<open>idt_cal_settings\<close>, whose return value is not
  looked at. The result is the value returned and the device handle.
\<close>

definition input_out_of_range :: "int \<Rightarrow> bool" where
  "input_out_of_range freq_in \<longleftrightarrow>
     freq_in < IDT_8T49N24X_FIN_MIN \<and> freq_in > IDT_8T49N24X_FIN_MAX"

definition output_out_of_range :: "int \<Rightarrow> bool" where
  "output_out_of_range freq_out \<longleftrightarrow>
     freq_out < IDT_8T49N24X_FOUT_MIN \<and> freq_out > IDT_8T49N24X_FOUT_MAX"

text \<open>
  \<open>program_settings\<close> is \<open>set_clock\<close> from its first write to its \<open>return ret\<close>: the
  writes in the order of the source, the status of each call stored into \<open>ret\<close>.
\<close>

definition program_settings ::
  "'b regmap_ops \<Rightarrow> 'b idts \<Rightarrow> idt_settings \<Rightarrow> fault + (int \<times> 'b idts)" where
  "program_settings ops idt settings =
     (let (ret, idt) = idt_write_reg ops idt 112 (Some 5);
          (ret, idt) = idt_ref_input ops idt 0 False;
          (ret, idt) = idt_ref_input ops idt 1 False;
          (ret, idt) = idt_set_mode ops idt True;
          (ret, idt) = idt_pre_div ops idt (pre_x settings) 0;
          (ret, idt) = idt_pre_div ops idt (pre_x settings) 1;
          (ret, idt) = idt_m1_feedback ops idt (m1_x settings) 0;
          (ret, idt) = idt_m1_feedback ops idt (m1_x settings) 1;
          (ret, idt) = idt_dsm_int_reg ops idt (dsm_int settings);
          (ret, idt) = idt_dsm_frac_reg ops idt (dsm_frac settings)
      in case idt_outdiv_int ops idt (n_qx settings) 2 of
           Inl e \<Rightarrow> Inl e
         | Inr (ret, idt) \<Rightarrow>
      (case idt_outdiv_int ops idt (n_qx settings) 3 of
           Inl e \<Rightarrow> Inl e
         | Inr (ret, idt) \<Rightarrow>
      (case idt_outdiv_frac ops idt (nfrac_qx settings) 2 of
           Inl e \<Rightarrow> Inl e
         | Inr (ret, idt) \<Rightarrow>
      (case idt_outdiv_frac ops idt (nfrac_qx settings) 3 of
           Inl e \<Rightarrow> Inl e
         | Inr (ret, idt) \<Rightarrow>
             (let (ret, idt) = idt_in_monitor_ctrl ops idt (los_x settings) 0;
                  (ret, idt) = idt_in_monitor_ctrl ops idt (los_x settings) 1;
                  (ret, idt) = idt_write_reg ops idt 112 (Some 0)
              in Inr (ret, idt))))))"

definition set_clock ::
  "'b regmap_ops \<Rightarrow> 'b idts \<Rightarrow> int \<Rightarrow> int \<Rightarrow> fault + (int \<times> 'b idts)" where
  "set_clock ops idt freq_in freq_out =
     (if input_out_of_range freq_in then Inr (1, idt)
      else if output_out_of_range freq_out then Inr (1, idt)
      else (case idt_cal_settings (to_s32 freq_in) (to_s32 freq_out) of
              Inl e \<Rightarrow> Inl e
            | Inr settings \<Rightarrow> program_settings ops idt settings))"

section \<open>A concrete bus\<close>

text \<open>
  A bus for running \<open>set_clock\<close> on concrete frequencies. Its state counts the writes
  issued; the fifth write fails with -5 (\<open>-EIO\<close>), every other write succeeds; every
  read returns 255.
\<close>

definition eio_bus :: "nat regmap_ops" where
  "eio_bus = \<lparr> reg_write = (\<lambda>b a v. (if b = 4 then - 5 else 0, b + 1)),
               reg_read = (\<lambda>b a. (Some 255, b)) \<rparr>"

definition idt0 :: "nat idts" where
  "idt0 = \<lparr> regmap = 0, issued = [] \<rparr>"

text \<open>
  The 43 writes \<open>set_clock\<close> issues on this bus for 148.5 MHz from 40 MHz, each with
  its address, value and status.
\<close>

definition eio_writes :: "(int \<times> int option \<times> int) list" where
  "eio_writes =
     [(112, Some 5, 0), (10, Some 255, 0), (10, Some 255, 0),
      (10, Some 253, 0), (105, Some 255, - 5), (11, Some 0, 0),
      (12, Some 1, 0), (13, Some 64, 0), (14, Some 0, 0),
      (15, Some 1, 0), (16, Some 64, 0), (20, Some 0, 0),
      (21, Some 111, 0), (22, Some 96, 0), (17, Some 0, 0),
      (18, Some 111, 0), (19, Some 96, 0), (37, Some 0, 0),
      (38, Some 44, 0), (40, Some 17, 0), (41, Some 153, 0),
      (42, Some 154, 0), (69, Some 0, 0), (70, Some 0, 0),
      (71, Some 12, 0), (72, Some 0, 0), (73, Some 0, 0),
      (74, Some 12, 0), (91, Some 0, 0), (92, Some 0, 0),
      (93, Some 0, 0), (94, Some 0, 0), (95, Some 0, 0),
      (96, Some 0, 0), (97, Some 0, 0), (98, Some 0, 0),
      (113, Some 0, 0), (114, Some 0, 0), (115, Some 14, 0),
      (116, Some 0, 0), (117, Some 0, 0), (118, Some 14, 0),
      (112, Some 0, 0)]"

section \<open>Conversions\<close>

lemma to_s32_id: "- (2 ^ 31) \<le> x \<Longrightarrow> x < 2 ^ 31 \<Longrightarrow> to_s32 x = x"
  by (simp add: to_s32_def)

lemma to_u32_id: "0 \<le> x \<Longrightarrow> x < 2 ^ 32 \<Longrightarrow> to_u32 x = x"
  by (simp add: to_u32_def)

lemma to_u64_id: "0 \<le> x \<Longrightarrow> x < 2 ^ 64 \<Longrightarrow> to_u64 x = x"
  by (simp add: to_u64_def)

lemma to_u64_0: "to_u64 0 = 0"
  by (simp add: to_u64_def)

lemma to_u64_nonneg: "0 \<le> to_u64 x"
  by (simp add: to_u64_def)

lemma to_u32_range: "0 \<le> to_u32 x \<and> to_u32 x < 2 ^ 32"
  by (simp add: to_u32_def)

lemma to_s32_range: "- (2 ^ 31) \<le> to_s32 x \<and> to_s32 x < 2 ^ 31"
proof -
  have "0 \<le> (x + 2 ^ 31) mod 2 ^ 32" "(x + 2 ^ 31) mod 2 ^ 32 < (2 ^ 32 :: int)"
    by simp_all
  then show ?thesis
    unfolding to_s32_def by simp
qed

lemma even_to_s32: "even (to_s32 x) \<longleftrightarrow> even x"
proof -
  have "even ((x + 2 ^ 31) mod 2 ^ 32) \<longleftrightarrow> even (x + 2 ^ 31)"
    by (rule dvd_mod_iff) simp
  then show ?thesis
    unfolding to_s32_def by simp
qed

section \<open>Truncating division\<close>

lemma sdiv_nonneg: "0 \<le> a \<Longrightarrow> 0 < b \<Longrightarrow> a sdiv b = a div (b::int)"
  by (simp add: signed_divide_int_def sgn_if)






lemma int_div_less:
  fixes a b c :: int
  assumes "0 < c" "a < b * c"
  shows "a div c < b"
proof -
  have "a = (a div c) * c + a mod c"
    by simp
  moreover have "0 \<le> a mod c"
    using assms(1) by simp
  ultimately have "(a div c) * c < b * c"
    using assms(2) by linarith
  then show ?thesis
    using assms(1) by (simp add: mult_less_cancel_right_pos)
qed

section \<open>Concrete runs\<close>

text \<open>
  The calculator on the frequencies used below, evaluated with the code equations.
  148.5 MHz from the 40 MHz crystal is the driver's standard case; 700 MHz selects the
  odd divider 5; 400 MHz makes the first pre-divider exact; at 1.1 GHz no divider
  is accepted.
\<close>

lemma divtable_148500000: "idt_get_int_divtable 148500000 20 False = Inr [24, 24]"
  by code_simp

lemma divtable_700000000: "idt_get_int_divtable 700000000 20 False = Inr [5]"
  by code_simp




lemma cal_40000000_148500000:
  "idt_cal_settings 40000000 148500000 =
     Inr \<lparr>dsm_frac = 1153434, m1_x = Some 28512, pre_x = Some 320, los_x = 14,
          n_qx = 12, nfrac_qx = 0, ns2_qx = Some 2, dsm_int = 44, ns1_qx = Some 1\<rparr>"
  by code_simp

lemma cal_20000000_148500000:
  "idt_cal_settings 20000000 148500000 =
     Inr \<lparr>dsm_frac = 1153434, m1_x = Some 28512, pre_x = Some 160, los_x = 25,
          n_qx = 12, nfrac_qx = 0, ns2_qx = Some 2, dsm_int = 44, ns1_qx = Some 1\<rparr>"
  by code_simp

lemma cal_40000000_700000000:
  "idt_cal_settings 40000000 700000000 =
     Inr \<lparr>dsm_frac = 1572864, m1_x = Some 27300, pre_x = Some 312, los_x = 13,
          n_qx = 3, nfrac_qx = 134217728, ns2_qx = Some 0, dsm_int = 43, ns1_qx = Some 0\<rparr>"
  by code_simp

lemma cal_40000000_400000000:
  "idt_cal_settings 40000000 400000000 =
     Inr \<lparr>dsm_frac = 0, m1_x = Some 31200, pre_x = Some 312, los_x = 15,
          n_qx = 5, nfrac_qx = 0, ns2_qx = Some 1, dsm_int = 50, ns1_qx = Some 0\<rparr>"
  by code_simp


lemma idt_write_reg_eio:
  "idt_write_reg eio_bus \<lparr>regmap = n, issued = l\<rparr> a (Some v) =
     (if n = 4 then - 5 else 0,
      \<lparr>regmap = n + 1,
        issued = l @ [(to_u16 a, Some (to_u8 v), if n = 4 then - 5 else 0)]\<rparr>)"
  by (simp add: idt_write_reg_def eio_bus_def Let_def)

lemma idt_modify_reg_eio:
  "idt_modify_reg eio_bus \<lparr>regmap = n, issued = l\<rparr> a v m =
     (if n = 4 then - 5 else 0,
      \<lparr>regmap = n + 1,
        issued = l @ [(to_u16 a, Some (to_u8 ((255 AND to_u32 (NOT m)) OR (v AND m))),
                       if n = 4 then - 5 else 0)]\<rparr>)"
  by (simp add: idt_modify_reg_def idt_write_reg_def eio_bus_def Let_def to_u32_def)

lemma program_settings_eio_run:
  "program_settings eio_bus idt0
     \<lparr>dsm_frac = 1153434, m1_x = Some 28512, pre_x = Some 320, los_x = 14,
      n_qx = 12, nfrac_qx = 0, ns2_qx = Some 2, dsm_int = 44, ns1_qx = Some 1\<rparr> =
     Inr (0, \<lparr>regmap = 43, issued = eio_writes\<rparr>)"
  by (simp add: program_settings_def idt0_def eio_writes_def idt_write_reg_eio idt_modify_reg_eio
      idt_ref_input_def idt_set_mode_def idt_pre_div_def idt_m1_feedback_def
      idt_dsm_int_reg_def idt_dsm_frac_reg_def idt_outdiv_int_def idt_outdiv_int_addr_def
      idt_outdiv_frac_def idt_outdiv_frac_addr_def idt_in_monitor_ctrl_def Let_def
      to_u16_def to_u8_def to_u32_def drop_bit_eq_div)

section \<open>The range tests of \<open>set_clock\<close>\<close>

text \<open>
  Both tests join their two comparisons with \<open>&&\<close>: a frequency would have to be below
  the minimum and above the maximum at once, so neither test ever holds.
\<close>

lemma output_range_test_dead: "\<not> output_out_of_range freq_out"
  by (simp add: output_out_of_range_def IDT_8T49N24X_FOUT_MIN_def IDT_8T49N24X_FOUT_MAX_def)

lemma input_range_test_dead: "\<not> input_out_of_range freq_in"
  by (simp add: input_out_of_range_def IDT_8T49N24X_FIN_MIN_def IDT_8T49N24X_FIN_MAX_def)

text \<open>
  C1. A target frequency outside 8000 .. 400000000 Hz is meant to make \<open>set_clock\<close>
  return 1 ("output frequency is not in range") before anything is computed. The
  test never holds; for the target 0 the call reaches \<open>idt_get_int_divtable\<close>, whose
  first statement divides by the target: the result is the division fault, for every
  bus and every input frequency.
\<close>

theorem set_clock_zero_target_divides_by_zero:
  "set_clock ops idt freq_in 0 = Inl DivisionByZero"
  by (simp add: set_clock_def output_range_test_dead input_range_test_dead
      idt_cal_settings_def idt_get_int_divtable_def to_s32_def)

lemma set_clock_runs_calculator:
  assumes "set_clock ops idt freq_in freq_out = Inr (ret, idt')"
  shows "\<exists>settings. idt_cal_settings (to_s32 freq_in) (to_s32 freq_out) = Inr settings \<and>
           program_settings ops idt settings = Inr (ret, idt')"
  using assms
  by (auto simp: set_clock_def output_range_test_dead input_range_test_dead split: sum.splits)

lemma set_clock_eio_run:
  "set_clock eio_bus idt0 40000000 148500000 = Inr (0, \<lparr>regmap = 43, issued = eio_writes\<rparr>)"
  by (simp add: set_clock_def output_range_test_dead input_range_test_dead to_s32_def
      cal_40000000_148500000 program_settings_eio_run)

section \<open>Entries of the divider table\<close>

lemma divtbl_row_entries:
  "divtbl_row f l n opts t0 = Inr t \<Longrightarrow> e \<in> set t \<Longrightarrow>
     e \<in> set t0 \<or>
     (\<exists>ns1 \<in> set opts. e = idt_outdiv_tmp ns1 n \<and>
        IDT_8T49N24X_FVCO_MIN \<le> idt_vco_tmp f e \<and> idt_vco_tmp f e \<le> IDT_8T49N24X_FVCO_MAX)"
proof (induction opts arbitrary: t0)
  case Nil
  then show ?case by simp
next
  case (Cons ns1 opts)
  let ?d = "idt_outdiv_tmp ns1 n"
  show ?case
  proof (cases "idt_vco_tmp f ?d \<le> IDT_8T49N24X_FVCO_MAX \<and>
                IDT_8T49N24X_FVCO_MIN \<le> idt_vco_tmp f ?d")
    case True
    with Cons.prems(1) have r: "divtbl_row f l n opts (t0 @ [?d]) = Inr t"
      by (simp add: Let_def split: if_splits)
    from Cons.IH [OF r Cons.prems(2)] True show ?thesis
      by auto
  next
    case False
    with Cons.prems(1) have r: "divtbl_row f l n opts t0 = Inr t"
      by (simp add: Let_def split: if_splits)
    from Cons.IH [OF r Cons.prems(2)] show ?thesis
      by auto
  qed
qed

lemma divtbl_scan_entries:
  "divtbl_scan f l opts n m t0 = Inr t \<Longrightarrow> e \<in> set t \<Longrightarrow>
     e \<in> set t0 \<or>
     (\<exists>ns1 \<in> set opts. \<exists>ns2. n \<le> ns2 \<and> ns2 \<le> m \<and> e = idt_outdiv_tmp ns1 ns2 \<and>
        IDT_8T49N24X_FVCO_MIN \<le> idt_vco_tmp f e \<and> idt_vco_tmp f e \<le> IDT_8T49N24X_FVCO_MAX)"
proof (induction f l opts n m t0 rule: divtbl_scan.induct)
  case (1 f l opts n m t0)
  show ?case
  proof (cases "n \<le> m")
    case False
    with "1.prems" show ?thesis
      by (simp add: divtbl_scan.simps)
  next
    case True
    with "1.prems"(1) obtain t1 where
      row: "divtbl_row f l n opts t0 = Inr t1" and
      rest: "divtbl_scan f l opts (n + 1) m t1 = Inr t"
      by (auto simp: divtbl_scan.simps [of f l opts n] split: sum.splits)
    from "1.IH" [OF True row rest "1.prems"(2)]
    show ?thesis
    proof
      assume "e \<in> set t1"
      from divtbl_row_entries [OF row this] True show ?thesis
        by auto
    next
      assume "\<exists>ns1\<in>set opts. \<exists>ns2. n + 1 \<le> ns2 \<and> ns2 \<le> m \<and> e = idt_outdiv_tmp ns1 ns2 \<and>
        IDT_8T49N24X_FVCO_MIN \<le> idt_vco_tmp f e \<and> idt_vco_tmp f e \<le> IDT_8T49N24X_FVCO_MAX"
      then obtain ns1 ns2 where "ns1 \<in> set opts" "n + 1 \<le> ns2" "ns2 \<le> m"
        "e = idt_outdiv_tmp ns1 ns2"
        "IDT_8T49N24X_FVCO_MIN \<le> idt_vco_tmp f e" "idt_vco_tmp f e \<le> IDT_8T49N24X_FVCO_MAX"
        by blast
      then have "\<exists>ns1\<in>set opts. \<exists>ns2. n \<le> ns2 \<and> ns2 \<le> m \<and> e = idt_outdiv_tmp ns1 ns2 \<and>
        IDT_8T49N24X_FVCO_MIN \<le> idt_vco_tmp f e \<and> idt_vco_tmp f e \<le> IDT_8T49N24X_FVCO_MAX"
        by (intro bexI [of _ ns1] exI [of _ ns2]) auto
      then show ?thesis ..
    qed
  qed
qed

lemma idt_get_int_divtable_entries:
  assumes "idt_get_int_divtable f l False = Inr t" and "e \<in> set t"
  shows "\<exists>ns1 \<in> {4, 5, 6}. \<exists>ns2.
           fst (idt_ns2_range f 1) \<le> ns2 \<and> ns2 \<le> snd (idt_ns2_range f 1) \<and>
           e = idt_outdiv_tmp ns1 ns2 \<and>
           IDT_8T49N24X_FVCO_MIN \<le> idt_vco_tmp f e \<and> idt_vco_tmp f e \<le> IDT_8T49N24X_FVCO_MAX"
proof -
  from assms(1) have
    "divtbl_scan f l [4, 5, 6] (fst (idt_ns2_range f 1)) (snd (idt_ns2_range f 1)) [] = Inr t"
    by (simp add: idt_get_int_divtable_def ns1_opts_def split: if_splits prod.splits)
  from divtbl_scan_entries [OF this assms(2)] show ?thesis
    by simp
qed

lemma divtbl_entry_shape:
  assumes "idt_get_int_divtable f l False = Inr t" and "e \<in> set t"
  shows "- (2 ^ 31) \<le> e \<and> e < 2 ^ 31 \<and> (odd e \<longrightarrow> e = 5)"
proof -
  from idt_get_int_divtable_entries [OF assms] obtain ns1 ns2
    where ns1: "ns1 \<in> {4, 5, 6}" and e: "e = idt_outdiv_tmp ns1 ns2"
    by blast
  show ?thesis
  proof (cases "ns2 = 0")
    case True
    with ns1 e show ?thesis
      by (auto simp: idt_outdiv_tmp_def)
  next
    case False
    with e have "e = to_s32 (ns1 * ns2 * 2)"
      by (simp add: idt_outdiv_tmp_def)
    then show ?thesis
      using to_s32_range [of "ns1 * ns2 * 2"] by (simp add: even_to_s32)
  qed
qed

section \<open>The highest divider\<close>

lemma fold_max_cases:
  "fold (\<lambda>d max_div. if max_div < d then d else max_div) t a = a \<or>
   fold (\<lambda>d max_div. if max_div < d then d else max_div) t a \<in> set t" for a :: int
proof (induction t arbitrary: a)
  case Nil
  show ?case by simp
next
  case (Cons d t)
  from Cons.IH [of "if a < d then d else a"] show ?case
    by (auto split: if_splits)
qed

lemma idt_max_div_cases: "idt_max_div t = 0 \<or> idt_max_div t \<in> set t"
  using fold_max_cases [of t 0] by (simp add: idt_max_div_def)

lemma idt_max_div_nonneg: "0 \<le> idt_max_div t"
proof -
  have "a \<le> fold (\<lambda>d max_div. if max_div < d then d else max_div) t a" for a :: int
  proof (induction t arbitrary: a)
    case Nil
    show ?case by simp
  next
    case (Cons d t)
    have "a \<le> (if a < d then d else a)" by simp
    also have "\<dots> \<le> fold (\<lambda>d max_div. if max_div < d then d else max_div) t
                          (if a < d then d else a)"
      by (rule Cons.IH)
    finally show ?case by simp
  qed
  then show ?thesis
    by (simp add: idt_max_div_def)
qed

lemma idt_max_div_shape:
  assumes "idt_get_int_divtable f l False = Inr t"
  shows "0 \<le> idt_max_div t \<and> idt_max_div t < 2 ^ 31 \<and>
         (odd (idt_max_div t) \<longrightarrow> idt_max_div t = 5)"
  using idt_max_div_cases [of t] idt_max_div_nonneg [of t] divtbl_entry_shape [OF assms]
  by auto

section \<open>The output divider\<close>

lemma idt_outdiv_split_even:
  assumes "0 \<le> d" "d < 2 ^ 31" "even d"
  shows "idt_outdiv_split d = (d div 2, 0)"
proof -
  from assms have "to_u32 (d div 2) = d div 2"
    by (intro to_u32_id) auto
  with assms show ?thesis
    by (simp add: idt_outdiv_split_def and_one_eq drop_bit_eq_div)
qed

lemma idt_outdiv_split_odd:
  assumes "0 \<le> d" "d < 2 ^ 31 - 1" "odd d"
  shows "idt_outdiv_split d = ((d + 1) div 2, 2 ^ 27)"
proof -
  from assms have "to_s32 (d + 1) = d + 1"
    by (intro to_s32_id) auto
  moreover from assms have "to_u32 ((d + 1) div 2) = (d + 1) div 2"
    by (intro to_u32_id) auto
  moreover from assms have "d mod 2 = 1"
    by presburger
  ultimately show ?thesis
    by (simp add: idt_outdiv_split_def and_one_eq drop_bit_eq_div Let_def)
qed

text \<open>
  C7. For the divider the calculator selects (the highest entry of the table), the
  output divider stored in the settings is: integer part half the divider and
  fraction 0 when the divider is even; integer part the divider halved and rounded
  up, and fraction \<open>2 ^ 27\<close>, when it is odd.
\<close>

theorem outdiv_split_even_odd:
  assumes tbl: "idt_get_int_divtable freq_out 20 False = Inr divtbl"
    and cal: "idt_cal_settings freq_in freq_out = Inr s"
  shows "(even (idt_max_div divtbl) \<longrightarrow>
            n_qx s = idt_max_div divtbl div 2 \<and> nfrac_qx s = 0) \<and>
         (odd (idt_max_div divtbl) \<longrightarrow>
            n_qx s = (idt_max_div divtbl + 1) div 2 \<and> nfrac_qx s = 2 ^ 27)"
proof -
  from cal tbl have "(n_qx s, nfrac_qx s) = idt_outdiv_split (idt_max_div divtbl)"
    by (auto simp: idt_cal_settings_def Let_def split: sum.splits prod.splits)
  moreover note idt_max_div_shape [OF tbl]
  ultimately show ?thesis
    using idt_outdiv_split_even [of "idt_max_div divtbl"]
      idt_outdiv_split_odd [of "idt_max_div divtbl"]
    by auto
qed

text \<open>
  Both cases occur: 148.5 MHz selects the even divider 24 (integer 12, fraction 0),
  700 MHz the odd divider 5 (integer 3, fraction \<open>2 ^ 27\<close>).
\<close>

theorem outdiv_split_even_odd_witness:
  "idt_get_int_divtable 148500000 20 False = Inr [24, 24] \<and> even (idt_max_div [24, 24]) \<and>
   (\<exists>s. idt_cal_settings 40000000 148500000 = Inr s \<and> n_qx s = 12 \<and> nfrac_qx s = 0) \<and>
   idt_get_int_divtable 700000000 20 False = Inr [5] \<and> odd (idt_max_div [5]) \<and>
   (\<exists>s. idt_cal_settings 40000000 700000000 = Inr s \<and> n_qx s = 3 \<and> nfrac_qx s = 2 ^ 27)"
proof -
  have m24: "idt_max_div [24, 24] = 24" and m5: "idt_max_div [5] = 5"
    by (simp_all add: idt_max_div_def)
  from outdiv_split_even_odd [OF divtable_148500000 cal_40000000_148500000]
    outdiv_split_even_odd [OF divtable_700000000 cal_40000000_700000000]
  show ?thesis
    by (simp add: m24 m5 divtable_148500000 divtable_700000000
        cal_40000000_148500000 cal_40000000_700000000)
qed

section \<open>The NS1 register value\<close>







section \<open>The feedback scan\<close>

lemma scan_m1_nonneg: "0 \<le> scan_m1 fvco freq_in i"
  by (simp add: scan_m1_def Let_def to_u64_nonneg pos_imp_zdiv_nonneg_iff zdiv_eq_0_iff
      div_int_pos_iff)

text \<open>
  What the scan returns: its state is either the one it started with, or the divider
  \<open>j\<close> it accepted last, at or after the start and at most \<open>P_MAX\<close>, with the
  multiplier computed for \<open>j\<close>, which is below \<open>M_MAX\<close>.
\<close>

lemma idt_feedback_scan_accepts:
  "idt_feedback_scan fvco freq_in i (e0, m0, p0) = Inr (e, m, p) \<Longrightarrow>
     (e = e0 \<and> m = m0 \<and> p = p0) \<or>
     (\<exists>j. i \<le> j \<and> j \<le> IDT_8T49N24X_P_MAX \<and> p = Some j \<and>
          m = Some (scan_m1 fvco freq_in j) \<and> scan_m1 fvco freq_in j < IDT_8T49N24X_M_MAX)"
proof (induction fvco freq_in i "(e0, m0, p0)" arbitrary: e0 m0 p0 rule: idt_feedback_scan.induct)
  case (1 fvco freq_in i error m1_default p_default)
  let ?m1 = "scan_m1 fvco freq_in i"
  let ?et = "scan_error_tmp fvco freq_in i ?m1"
  show ?case
  proof (cases "i \<le> IDT_8T49N24X_P_MAX \<and> to_u64 freq_in \<noteq> 0 \<and> ?m1 < IDT_8T49N24X_M_MAX
      \<and> scan_temp1 freq_in i \<noteq> 0")
    case False
    with "1.prems" show ?thesis
      by (auto simp: idt_feedback_scan.simps [of fvco freq_in i] Let_def split: if_splits)
  next
    case True
    then have m1s: "to_s32 ?m1 = ?m1"
      using scan_m1_nonneg [of fvco freq_in i]
      by (intro to_s32_id) (auto simp: IDT_8T49N24X_M_MAX_def)
    have here: "\<exists>j. i \<le> j \<and> j \<le> IDT_8T49N24X_P_MAX \<and> Some i = Some j \<and>
          Some ?m1 = Some (scan_m1 fvco freq_in j) \<and> scan_m1 fvco freq_in j < IDT_8T49N24X_M_MAX"
      using True by auto
    consider (zero) "?et = 0"
      | (better) "?et \<noteq> 0" "c_abs ?et < error"
      | (worse) "?et \<noteq> 0" "\<not> c_abs ?et < error"
      by blast
    then show ?thesis
    proof cases
      case zero
      with True "1.prems" have "p = Some i" "m = Some ?m1"
        by (auto simp: idt_feedback_scan.simps [of fvco freq_in i] Let_def m1s)
      with here show ?thesis by auto
    next
      case better
      with True "1.prems" have
        rest: "idt_feedback_scan fvco freq_in (i + 1) (c_abs ?et, Some (to_s32 ?m1), Some i) =
                 Inr (e, m, p)"
        by (auto simp: idt_feedback_scan.simps [of fvco freq_in i] Let_def)
      from "1.hyps"(1) [OF _ _ refl _ _ refl _ _ rest] True better
      have "(e = c_abs ?et \<and> m = Some (to_s32 ?m1) \<and> p = Some i) \<or>
        (\<exists>j. i + 1 \<le> j \<and> j \<le> IDT_8T49N24X_P_MAX \<and> p = Some j \<and>
          m = Some (scan_m1 fvco freq_in j) \<and> scan_m1 fvco freq_in j < IDT_8T49N24X_M_MAX)"
        by auto
      then show ?thesis
        using here m1s by auto
    next
      case worse
      with True "1.prems" have
        rest: "idt_feedback_scan fvco freq_in (i + 1) (error, m1_default, p_default) =
                 Inr (e, m, p)"
        by (auto simp: idt_feedback_scan.simps [of fvco freq_in i] Let_def)
      from "1.hyps"(2) [OF _ _ refl _ _ refl _ rest] True worse
      have "(e = error \<and> m = m1_default \<and> p = p_default) \<or>
        (\<exists>j. i + 1 \<le> j \<and> j \<le> IDT_8T49N24X_P_MAX \<and> p = Some j \<and>
          m = Some (scan_m1 fvco freq_in j) \<and> scan_m1 fvco freq_in j < IDT_8T49N24X_M_MAX)"
        by auto
      then show ?thesis
        by auto
    qed
  qed
qed

lemma idt_cal_settings_scan:
  assumes "idt_cal_settings freq_in freq_out = Inr s"
  shows "\<exists>divtbl e md pd. idt_get_int_divtable freq_out 20 False = Inr divtbl \<and>
     idt_feedback_scan (idt_fvco freq_out (idt_max_div divtbl)) freq_in
        (freq_in sdiv IDT_8T49N24X_FPD_MAX) (99999999, None, None) = Inr (e, md, pd) \<and>
     m1_x s = map_option to_u32 md \<and> pre_x s = map_option to_u32 pd"
  using assms
  by (auto simp: idt_cal_settings_def Let_def split: sum.splits prod.splits)

text \<open>
  The bounds the calculator does keep. Whenever it returns settings in which the scan
  assigned the pre-divider \<open>p\<close> and the multiplier \<open>m\<close>, for a reference frequency
  that is not negative as an \<open>int\<close>: \<open>m < 2 ^ 24\<close> and \<open>p_min \<le> p \<le> 2 ^ 22\<close>, where
  \<open>p_min\<close> is the reference frequency divided by 128000 and rounded down, the value
  the scan starts at.
\<close>

lemma feedback_solution_bounds:
  assumes cal: "idt_cal_settings freq_in freq_out = Inr s"
    and p: "pre_x s = Some p" and m: "m1_x s = Some m" and fin: "0 \<le> freq_in"
  shows "m < 2 ^ 24 \<and> freq_in div 128000 \<le> p \<and> p \<le> 2 ^ 22"
proof -
  from idt_cal_settings_scan [OF cal] obtain divtbl e md pd where
    scan: "idt_feedback_scan (idt_fvco freq_out (idt_max_div divtbl)) freq_in
        (freq_in sdiv IDT_8T49N24X_FPD_MAX) (99999999, None, None) = Inr (e, md, pd)"
    and md: "m1_x s = map_option to_u32 md" and pd: "pre_x s = map_option to_u32 pd"
    by blast
  let ?fvco = "idt_fvco freq_out (idt_max_div divtbl)"
  from m md have "md \<noteq> None" by auto
  with idt_feedback_scan_accepts [OF scan] obtain j where
    j: "freq_in sdiv IDT_8T49N24X_FPD_MAX \<le> j" "j \<le> IDT_8T49N24X_P_MAX" "pd = Some j"
    and mj: "md = Some (scan_m1 ?fvco freq_in j)" "scan_m1 ?fvco freq_in j < IDT_8T49N24X_M_MAX"
    by auto
  from fin have pmin: "freq_in sdiv IDT_8T49N24X_FPD_MAX = freq_in div 128000"
    by (simp add: sdiv_nonneg IDT_8T49N24X_FPD_MAX_def)
  from fin have "0 \<le> freq_in div 128000"
    by simp
  with j pmin have jr: "0 \<le> j" "j \<le> 2 ^ 22" "freq_in div 128000 \<le> j"
    by (simp_all add: IDT_8T49N24X_P_MAX_def)
  then have "to_u32 j = j"
    by (intro to_u32_id) auto
  with p pd j have "p = j" by simp
  from mj scan_m1_nonneg [of ?fvco freq_in j]
  have "to_u32 (scan_m1 ?fvco freq_in j) = scan_m1 ?fvco freq_in j"
    by (intro to_u32_id) (auto simp: IDT_8T49N24X_M_MAX_def)
  with m md mj have "m = scan_m1 ?fvco freq_in j" by simp
  with mj \<open>p = j\<close> jr show ?thesis
    by (simp add: IDT_8T49N24X_M_MAX_def)
qed

text \<open>148.5 MHz from 40 MHz: the scan starts at 312 and returns \<open>p = 320\<close>, \<open>m = 28512\<close>.\<close>

lemma feedback_solution_bounds_standard_case:
  "\<exists>s p m. idt_cal_settings 40000000 148500000 = Inr s \<and> pre_x s = Some p \<and> m1_x s = Some m \<and>
     (0::int) \<le> 40000000 \<and> m < 2 ^ 24 \<and> 40000000 div 128000 \<le> p \<and> p \<le> 2 ^ 22"
proof -
  let ?s = "\<lparr>dsm_frac = 1153434, m1_x = Some 28512, pre_x = Some 320, los_x = 14,
          n_qx = 12, nfrac_qx = 0, ns2_qx = Some 2, dsm_int = 44, ns1_qx = Some 1\<rparr>"
  have "pre_x ?s = Some 320" "m1_x ?s = Some 28512" "(0::int) \<le> 40000000"
    by simp_all
  from feedback_solution_bounds [OF cal_40000000_148500000 this]
  show ?thesis
    by (intro exI [of _ ?s] exI [of _ 320] exI [of _ 28512])
      (simp add: cal_40000000_148500000)
qed

text \<open>
  Rounding down lets the scan start too low. A reference from 8000 Hz, the minimum the
  driver declares (\<open>IDT_8T49N24X_FIN_MIN\<close>), up to 127999 Hz makes it start at the
  divider 0, where the divisor of the error is 0: the first pass divides by zero.
\<close>

lemma scan_low_reference_divides_by_zero:
  assumes "0 < freq_in" "freq_in < 128000"
  shows "idt_feedback_scan fvco freq_in (freq_in sdiv IDT_8T49N24X_FPD_MAX) st =
           Inl DivisionByZero"
proof -
  obtain error m1_default p_default where st: "st = (error, m1_default, p_default)"
    by (cases st) auto
  from assms have pmin: "freq_in sdiv IDT_8T49N24X_FPD_MAX = 0"
    by (simp add: sdiv_nonneg IDT_8T49N24X_FPD_MAX_def)
  from assms have uf: "to_u64 freq_in = freq_in"
    by (intro to_u64_id) auto
  from assms have uh: "to_u64 (freq_in div 2) = freq_in div 2"
    by (intro to_u64_id) auto
  from assms have "freq_in div 2 < freq_in" by simp
  with assms have "(freq_in div 2) div freq_in = 0"
    by (simp add: div_pos_pos_trivial)
  then have m1: "scan_m1 fvco freq_in 0 = 0"
    by (simp add: scan_m1_def Let_def uf uh to_u64_0)
  have t1: "scan_temp1 freq_in 0 = 0"
    by (simp add: scan_temp1_def to_u64_0)
  from assms show ?thesis
    unfolding pmin st
    by (simp add: idt_feedback_scan.simps [of fvco freq_in 0] m1 t1 uf
        IDT_8T49N24X_P_MAX_def IDT_8T49N24X_M_MAX_def)
qed

lemma cal_100000_148500000: "idt_cal_settings 100000 148500000 = Inl DivisionByZero"
  by code_simp

text \<open>
  C2. The returned multiplier is below \<open>2 ^ 24\<close> and the pre-divider at most \<open>2 ^ 22\<close>,
  but the pre-divider can be below \<open>p_min\<close>, the reference over \<open>FPD_MAX\<close> rounded
  up: 40 MHz over 128 kHz is 312.5, the scan starts at 312, and for the target
  400 MHz (VCO at 4 GHz) the pre-divider 312 is exact and is returned, below the
  ceiling 313. With it the phase detector runs at 40 MHz / 312, above the 128 kHz
  that \<open>IDT_8T49N24X_FPD_MAX\<close> declares as its maximum.
\<close>

theorem pre_divider_below_ceiling:
  "\<exists>s. idt_cal_settings 40000000 400000000 = Inr s \<and> pre_x s = Some 312 \<and>
     \<not> (- ((- 40000000) div 128000) \<le> (312::int))"
  by (simp add: cal_40000000_400000000)

section \<open>The upper loop feedback divider\<close>

lemma idt_dsm_split_eq:
  assumes "0 \<le> fvco" "fvco < 2 ^ 32"
  shows "idt_dsm_split fvco =
     (fvco div 80000000, ((fvco mod 80000000) * 2048 + 39062) div 78125)"
proof -
  have r: "0 \<le> fvco mod 80000000" "fvco mod 80000000 < 80000000"
    by simp_all
  from assms have "fvco div 80000000 \<le> 4294967295 div 80000000"
    by (intro zdiv_mono1) auto
  with assms have q: "0 \<le> fvco div 80000000" "fvco div 80000000 \<le> 53"
    by (simp_all add: pos_imp_zdiv_nonneg_iff)
  then have 1: "to_s32 (fvco div 80000000) = fvco div 80000000"
    by (intro to_s32_id) auto
  from r have 2: "to_u64 ((fvco mod 80000000) * 2048) = (fvco mod 80000000) * 2048"
    by (intro to_u64_id) auto
  from r have 3: "to_u64 ((fvco mod 80000000) * 2048 + 39062) =
                  (fvco mod 80000000) * 2048 + 39062"
    by (intro to_u64_id) auto
  show ?thesis
    by (simp add: idt_dsm_split_def IDT_8T49N24X_XTAL_FREQ_def Let_def 1 2 3 drop_bit_eq_div)
qed

lemma idt_cal_settings_dsm:
  assumes "idt_get_int_divtable freq_out 20 False = Inr divtbl"
    and "idt_cal_settings freq_in freq_out = Inr s"
  shows "(dsm_int s, dsm_frac s) =
     (to_u16 (fst (idt_dsm_split (idt_fvco freq_out (idt_max_div divtbl)))),
      to_u32 (snd (idt_dsm_split (idt_fvco freq_out (idt_max_div divtbl)))))"
  using assms
  by (auto simp: idt_cal_settings_def Let_def split: sum.splits prod.splits)

lemma nearest_quotient:
  fixes n q r :: int
  assumes "n = 78125 * q + r" "0 \<le> r" "r < 78125"
  shows "\<bar>q * 78125 - (n - 39062)\<bar> \<le> 39062"
  using assms by linarith

text \<open>
  C3 (amended). The DSM split is computed from the VCO frequency and the crystal
  frequency \<open>IDT_8T49N24X_XTAL_FREQ\<close> = 40 MHz, whatever the reference frequency is:
  the integer part is the quotient of the VCO frequency by twice the crystal
  frequency, and the fraction is the remainder times \<open>2 ^ 21\<close> over twice the crystal
  frequency (that is, times 2048 over 78125) rounded to the nearest integer. The
  integer part is at most 53, so it always fits its 9 bits.
\<close>

theorem dsm_split_from_crystal:
  assumes tbl: "idt_get_int_divtable freq_out 20 False = Inr divtbl"
    and cal: "idt_cal_settings freq_in freq_out = Inr s"
    and fvco: "fvco = idt_fvco freq_out (idt_max_div divtbl)"
  shows "dsm_int s = fvco div (2 * IDT_8T49N24X_XTAL_FREQ) \<and>
         dsm_frac s = ((fvco mod (2 * IDT_8T49N24X_XTAL_FREQ)) * 2048 + 39062) div 78125 \<and>
         \<bar>dsm_frac s * 78125 - (fvco mod (2 * IDT_8T49N24X_XTAL_FREQ)) * 2048\<bar> \<le> 39062 \<and>
         dsm_int s \<le> 53"
proof -
  have range: "0 \<le> fvco" "fvco < 2 ^ 32"
    using to_u32_range [of "freq_out * idt_max_div divtbl"] by (simp_all add: fvco idt_fvco_def)
  define q where "q = fvco div 80000000"
  define r where "r = fvco mod 80000000"
  define n where "n = r * 2048 + 39062"
  define d where "d = n div 78125"
  have r: "0 \<le> r" "r < 80000000"
    by (simp_all add: r_def)
  from range have "fvco div 80000000 \<le> 4294967295 div 80000000"
    by (intro zdiv_mono1) auto
  with range have q: "0 \<le> q" "q \<le> 53"
    by (simp_all add: q_def pos_imp_zdiv_nonneg_iff)
  then have i: "to_u16 q = q"
    by (simp add: to_u16_def)
  from r have n: "0 \<le> n" "n \<le> 163840037014"
    by (simp_all add: n_def)
  then have "n div 78125 \<le> 163840037014 div 78125"
    by (intro zdiv_mono1) auto
  moreover from n have "0 \<le> n div 78125"
    by (simp add: pos_imp_zdiv_nonneg_iff)
  ultimately have f: "to_u32 d = d"
    unfolding d_def by (intro to_u32_id) auto
  have "n = 78125 * d + n mod 78125"
    by (simp add: d_def)
  moreover have "0 \<le> n mod 78125" "n mod 78125 < 78125"
    by simp_all
  ultimately have "\<bar>d * 78125 - (n - 39062)\<bar> \<le> 39062"
    by (rule nearest_quotient)
  then have near: "\<bar>d * 78125 - r * 2048\<bar> \<le> 39062"
    by (simp add: n_def)
  from idt_cal_settings_dsm [OF tbl cal, folded fvco] idt_dsm_split_eq [OF range]
  have "dsm_int s = to_u16 q" "dsm_frac s = to_u32 d"
    by (simp_all add: q_def r_def n_def d_def)
  then have "dsm_int s = q" "dsm_frac s = d"
    by (simp_all add: i f)
  have x: "2 * IDT_8T49N24X_XTAL_FREQ = 80000000"
    by (simp add: IDT_8T49N24X_XTAL_FREQ_def)
  have c1: "dsm_int s = fvco div 80000000"
    using \<open>dsm_int s = q\<close> by (simp only: q_def)
  have c2: "dsm_frac s = (fvco mod 80000000 * 2048 + 39062) div 78125"
    using \<open>dsm_frac s = d\<close> by (simp only: d_def n_def r_def)
  have "\<bar>dsm_frac s * 78125 - r * 2048\<bar> \<le> 39062"
    using near by (simp only: \<open>dsm_frac s = d\<close>)
  then have c3: "\<bar>dsm_frac s * 78125 - fvco mod 80000000 * 2048\<bar> \<le> 39062"
    by (simp only: r_def)
  have c4: "dsm_int s \<le> 53"
    using q by (simp only: \<open>dsm_int s = q\<close>)
  show ?thesis
    unfolding x by (intro conjI) (rule c1 c2 c3 c4)+
qed

text \<open>
  148.5 MHz from a 20 MHz reference: the VCO runs at 3564 MHz, and the split is
  44 and 1153434, from the 40 MHz crystal.
\<close>

theorem dsm_split_from_crystal_witness:
  "idt_get_int_divtable 148500000 20 False = Inr [24, 24] \<and>
   idt_fvco 148500000 (idt_max_div [24, 24]) = 3564000000 \<and>
   (\<exists>s. idt_cal_settings 20000000 148500000 = Inr s \<and>
        dsm_int s = 3564000000 div (2 * IDT_8T49N24X_XTAL_FREQ) \<and>
        dsm_frac s = ((3564000000 mod (2 * IDT_8T49N24X_XTAL_FREQ)) * 2048 + 39062) div 78125 \<and>
        dsm_int s = 44 \<and> dsm_frac s = 1153434)"
proof -
  have v: "idt_fvco 148500000 (idt_max_div [24, 24]) = 3564000000"
    by (simp add: idt_fvco_def idt_max_div_def to_u32_def)
  from dsm_split_from_crystal [OF divtable_148500000 cal_20000000_148500000 v [symmetric]]
  show ?thesis
    by (simp add: divtable_148500000 cal_20000000_148500000 v)
qed

text \<open>
  As stated, from the reference frequency, C3 fails: with the 20 MHz reference the
  quotient of the VCO frequency by twice the reference would be 89; the calculator
  stores 44.
\<close>

theorem dsm_split_ignores_reference:
  "\<exists>s. idt_cal_settings 20000000 148500000 = Inr s \<and> dsm_int s = 44 \<and>
     idt_fvco 148500000 (idt_max_div [24, 24]) div (2 * 20000000) = 89 \<and>
     dsm_int s \<noteq> idt_fvco 148500000 (idt_max_div [24, 24]) div (2 * 20000000)"
  by (simp add: cal_20000000_148500000 idt_fvco_def idt_max_div_def to_u32_def)

section \<open>An empty divider table\<close>






section \<open>The error of a candidate\<close>

lemma error_quotient_bound:
  fixes D f k T :: int
  assumes "D < f" "k \<le> T" "7 * f < 8000 * k" "0 < T"
  shows "D * 1000000 < 2147483648 * T"
  using assms by linarith

text \<open>
  C5 (amended). For a reference frequency in its declared range 8000 .. 875000000 Hz
  and a divider \<open>p\<close> from 1 to \<open>P_MAX\<close>, the multiplier is
  \<open>m = (vco * p + reference div 2) div reference\<close>, the quotient rounded half up; when
  \<open>m < 2 ^ 24\<close> and \<open>m\<close> was not rounded up (\<open>m * reference \<le> vco * p\<close>), the error the
  scan compares is \<open>(vco * p - m * reference) * 1000000 div (p * reference div 1000)\<close>:
  the divisor is a thousandth of \<open>p * reference\<close>, so the value counts parts per
  thousand million, not per million.
\<close>

theorem scan_error_scaled:
  assumes fin: "8000 \<le> freq_in" "freq_in \<le> 875000000"
    and i: "1 \<le> i" "i \<le> IDT_8T49N24X_P_MAX"
    and fvco: "0 \<le> fvco" "fvco < 2 ^ 32"
    and m: "m = scan_m1 fvco freq_in i"
    and sat: "m < IDT_8T49N24X_M_MAX"
    and down: "m * freq_in \<le> fvco * i"
  shows "m = (fvco * i + freq_in div 2) div freq_in \<and>
         scan_error_tmp fvco freq_in i m =
           (fvco * i - m * freq_in) * 1000000 div (i * freq_in div 1000)"
proof -
  let ?x = "fvco * i"
  let ?D = "?x - m * freq_in"
  let ?T = "i * freq_in div 1000"
  from i have i': "i \<le> 4194304" by (simp add: IDT_8T49N24X_P_MAX_def)
  have x0: "0 \<le> ?x" using fvco i by simp
  have xb: "?x \<le> 4294967295 * 4194304"
    using fvco i i' by (intro mult_mono) auto
  then have x1: "?x < 2 ^ 64" by simp
  have ux: "to_u64 ?x = ?x"
    using x0 x1 by (rule to_u64_id)
  have h: "0 \<le> freq_in div 2" "freq_in div 2 < 2 ^ 31"
    using fin by auto
  have uh: "to_u64 (?x + freq_in div 2) = ?x + freq_in div 2"
    using x0 xb h by (intro to_u64_id) auto
  have uf: "to_u64 freq_in = freq_in"
    using fin by (intro to_u64_id) auto
  have m_eq: "m = (?x + freq_in div 2) div freq_in"
    by (simp add: m scan_m1_def Let_def ux uh uf)
  have m0: "0 \<le> m"
    using m scan_m1_nonneg by simp
  have mf0: "0 \<le> m * freq_in"
    using m0 fin by simp
  have umf: "to_u64 (m * freq_in) = m * freq_in"
    using mf0 down x1 by (intro to_u64_id) auto
  have D0: "0 \<le> ?D" using down by simp
  have "?x div freq_in \<le> m"
    unfolding m_eq using h fin by (intro zdiv_mono1) auto
  then have "(?x div freq_in) * freq_in \<le> m * freq_in"
    using fin by (intro mult_right_mono) auto
  moreover have "?x = (?x div freq_in) * freq_in + ?x mod freq_in"
    by simp
  moreover have "?x mod freq_in < freq_in"
    using fin by (intro pos_mod_bound) auto
  ultimately have D1: "?D < freq_in"
    by linarith
  have uD: "to_u64 ?D = ?D"
    using D0 D1 fin by (intro to_u64_id) auto
  have DM0: "0 \<le> ?D * 1000000" using D0 by simp
  have "?D * 1000000 < 875000000 * 1000000"
    using D1 fin by simp
  then have uDM: "to_u64 (?D * 1000000) = ?D * 1000000"
    using DM0 by (intro to_u64_id) auto
  have if0: "0 \<le> i * freq_in" using i fin by simp
  have "i * freq_in \<le> 4194304 * 875000000"
    using i i' fin by (intro mult_mono) auto
  then have uif: "to_u64 (i * freq_in) = i * freq_in"
    using if0 by (intro to_u64_id) auto
  have k: "freq_in div 1000 \<le> ?T"
    using i fin by (intro zdiv_mono1) (auto simp: mult_le_cancel_right1)
  have "freq_in = 1000 * (freq_in div 1000) + freq_in mod 1000"
    by simp
  moreover have "freq_in mod 1000 < 1000"
    by simp
  ultimately have k2: "7 * freq_in < 8000 * (freq_in div 1000)"
    using fin by linarith
  have T0: "0 < ?T"
    using k k2 fin by linarith
  have "?D * 1000000 < 2147483648 * ?T"
    using D1 k k2 T0 by (rule error_quotient_bound)
  then have q1: "?D * 1000000 div ?T < 2147483648"
    using T0 by (intro int_div_less) auto
  have q0: "0 \<le> ?D * 1000000 div ?T"
    using DM0 T0 by (simp add: pos_imp_zdiv_nonneg_iff)
  have sq: "to_s32 (?D * 1000000 div ?T) = ?D * 1000000 div ?T"
    using q0 q1 by (intro to_s32_id) auto
  have "scan_error_tmp fvco freq_in i m = ?D * 1000000 div ?T"
    unfolding scan_error_tmp_def scan_temp1_def Let_def ux umf uD uDM uif sq
    by (rule refl)
  with m_eq show ?thesis
    by (intro conjI)
qed

text \<open>The first divider of the standard case: \<open>p = 312\<close>, \<open>m = 27799\<close>, error 641025.\<close>

theorem scan_error_scaled_witness:
  "(8000::int) \<le> 40000000 \<and> (40000000::int) \<le> 875000000 \<and> (1::int) \<le> 312 \<and>
   312 \<le> IDT_8T49N24X_P_MAX \<and> scan_m1 3564000000 40000000 312 = 27799 \<and>
   27799 < IDT_8T49N24X_M_MAX \<and> (27799::int) * 40000000 \<le> 3564000000 * 312 \<and>
   scan_error_tmp 3564000000 40000000 312 27799 = 641025"
proof -
  have m: "27799 = scan_m1 3564000000 40000000 312"
    by (simp add: scan_m1_def to_u64_def)
  have "(8000::int) \<le> 40000000" "(40000000::int) \<le> 875000000" "(1::int) \<le> 312"
    "312 \<le> IDT_8T49N24X_P_MAX" "(0::int) \<le> 3564000000" "(3564000000::int) < 2 ^ 32"
    by (simp_all add: IDT_8T49N24X_P_MAX_def)
  from scan_error_scaled [OF this m] m
  show ?thesis
    by (simp add: IDT_8T49N24X_P_MAX_def IDT_8T49N24X_M_MAX_def)
qed

text \<open>
  As stated, in parts per million, C5 fails: at \<open>p = 312\<close> the formula of the claim
  gives 641, and the scan goes on to \<open>p = 313\<close> with the error 641025.
\<close>

theorem scan_error_not_ppm:
  "scan_m1 3564000000 40000000 312 = 27799 \<and> 27799 < IDT_8T49N24X_M_MAX \<and>
   scan_error_tmp 3564000000 40000000 312 27799 = 641025 \<and>
   \<bar>3564000000 * 312 - 27799 * 40000000\<bar> * 1000000 div (312 * 40000000) = (641::int) \<and>
   idt_feedback_scan 3564000000 40000000 312 (99999999, None, None) =
     idt_feedback_scan 3564000000 40000000 313 (641025, Some 27799, Some 312)"
  by (simp add: scan_m1_def scan_error_tmp_def scan_temp1_def to_u64_def to_s32_def c_abs_def
      IDT_8T49N24X_M_MAX_def IDT_8T49N24X_P_MAX_def
      idt_feedback_scan.simps [of 3564000000 40000000 312])

section \<open>A scan that accepts nothing\<close>

text \<open>
  From its first divider the scan of the calculator cannot saturate at once when the
  reference is 128 kHz or more: the first multiplier is about the VCO frequency over
  128000, far below \<open>M_MAX\<close>.
\<close>

lemma first_multiplier_bound:
  fixes x h f :: int
  assumes "128000 * x \<le> 4294967295 * f" "h \<le> f" "128000 \<le> f"
  shows "x + h < 16777216 * f"
  using assms by linarith

lemma scan_first_multiplier_below_max:
  assumes fin: "128000 \<le> freq_in" "freq_in < 2 ^ 31" and fvco: "0 \<le> fvco" "fvco < 2 ^ 32"
  shows "scan_m1 fvco freq_in (freq_in sdiv IDT_8T49N24X_FPD_MAX) < IDT_8T49N24X_M_MAX"
proof -
  define i where "i = freq_in div 128000"
  define h where "h = freq_in div 2"
  from fin have pmin: "freq_in sdiv IDT_8T49N24X_FPD_MAX = i"
    by (simp add: sdiv_nonneg IDT_8T49N24X_FPD_MAX_def i_def)
  from fin have i0: "0 \<le> i"
    by (simp add: pos_imp_zdiv_nonneg_iff i_def)
  have "freq_in = 128000 * i + freq_in mod 128000"
    by (simp add: i_def)
  moreover have "0 \<le> freq_in mod 128000"
    by simp
  ultimately have i1: "128000 * i \<le> freq_in"
    by linarith
  have "fvco * (128000 * i) \<le> fvco * freq_in"
    using i1 fvco by (intro mult_left_mono) auto
  moreover have "fvco * freq_in \<le> 4294967295 * freq_in"
    using fvco fin by (intro mult_right_mono) auto
  ultimately have b: "128000 * (fvco * i) \<le> 4294967295 * freq_in"
    by simp
  have x0: "0 \<le> fvco * i"
    using fvco i0 by simp
  have h: "0 \<le> h" "h \<le> freq_in"
    using fin by (auto simp: h_def)
  have lt: "fvco * i + h < 16777216 * freq_in"
    using b h(2) fin(1) by (rule first_multiplier_bound)
  from fin have f31: "freq_in < 2147483648"
    by simp
  have b64: "fvco * i + h < 16777216 * 2147483648"
    using lt f31 by linarith
  have ux: "to_u64 (fvco * i) = fvco * i"
    using x0 h b64 by (intro to_u64_id) auto
  have uh: "to_u64 (fvco * i + h) = fvco * i + h"
    using x0 h b64 by (intro to_u64_id) auto
  from fin have uf: "to_u64 freq_in = freq_in"
    by (intro to_u64_id) auto
  have "(fvco * i + h) div freq_in < 16777216"
    using lt fin by (intro int_div_less) auto
  then show ?thesis
    unfolding pmin scan_m1_def Let_def ux h_def [symmetric] uh uf IDT_8T49N24X_M_MAX_def
    by simp
qed




section \<open>The write sequence\<close>

text \<open>
  Each routine appends its writes to those issued before, at fixed addresses, whatever
  the bus answers.
\<close>

lemma idt_write_reg_issued:
  "idt_write_reg ops idt a v = (ret, idt') \<Longrightarrow>
     issued idt' = issued idt @ [(to_u16 a, map_option to_u8 v, ret)]"
  by (auto simp: idt_write_reg_def Let_def split: prod.splits)

lemma idt_modify_reg_issued:
  "idt_modify_reg ops idt a v m = (ret, idt') \<Longrightarrow>
     \<exists>es. issued idt' = issued idt @ es \<and> map fst es = [to_u16 a]"
  by (auto simp: idt_modify_reg_def Let_def split: prod.splits dest!: idt_write_reg_issued)

lemma idt_ref_input_issued:
  "idt_ref_input ops idt input enable = (ret, idt') \<Longrightarrow>
     \<exists>es. issued idt' = issued idt @ es \<and> map fst es = [10]"
  by (auto simp: idt_ref_input_def Let_def to_u16_def dest!: idt_modify_reg_issued)

lemma idt_set_mode_issued:
  "idt_set_mode ops idt synthesizer = (ret, idt') \<Longrightarrow>
     \<exists>es. issued idt' = issued idt @ es \<and> map fst es = [10, 105]"
  by (auto simp: idt_set_mode_def Let_def to_u16_def split: prod.splits
      dest!: idt_modify_reg_issued)

lemma idt_pre_div_issued:
  "idt_pre_div ops idt val input = (ret, idt') \<Longrightarrow>
     \<exists>es. issued idt' = issued idt @ es \<and>
       map fst es = (if input = 1 then [14, 15, 16] else [11, 12, 13])"
  by (auto simp: idt_pre_div_def Let_def to_u16_def split: prod.splits
      dest!: idt_write_reg_issued)

lemma idt_m1_feedback_issued:
  "idt_m1_feedback ops idt val input = (ret, idt') \<Longrightarrow>
     \<exists>es. issued idt' = issued idt @ es \<and>
       map fst es = (if input = 1 then [17, 18, 19] else [20, 21, 22])"
  by (auto simp: idt_m1_feedback_def Let_def to_u16_def split: prod.splits
      dest!: idt_write_reg_issued)

lemma idt_dsm_int_reg_issued:
  "idt_dsm_int_reg ops idt val = (ret, idt') \<Longrightarrow>
     \<exists>es. issued idt' = issued idt @ es \<and> map fst es = [37, 38]"
  by (auto simp: idt_dsm_int_reg_def Let_def to_u16_def split: prod.splits
      dest!: idt_write_reg_issued)

lemma idt_dsm_frac_reg_issued:
  "idt_dsm_frac_reg ops idt val = (ret, idt') \<Longrightarrow>
     \<exists>es. issued idt' = issued idt @ es \<and> map fst es = [40, 41, 42]"
  by (auto simp: idt_dsm_frac_reg_def Let_def to_u16_def split: prod.splits
      dest!: idt_write_reg_issued)

lemma idt_outdiv_int_issued:
  "idt_outdiv_int ops idt val output = Inr (ret, idt') \<Longrightarrow>
     \<exists>es. issued idt' = issued idt @ es \<and>
       map fst es = (if output = 2 then [69, 70, 71] else if output = 3 then [72, 73, 74]
                     else if output = 0 then [63, 64, 65] else [66, 67, 68])"
  by (auto simp: idt_outdiv_int_def idt_outdiv_int_addr_def Let_def to_u16_def
      split: prod.splits if_splits dest!: idt_write_reg_issued)

lemma idt_outdiv_frac_issued:
  "idt_outdiv_frac ops idt val output = Inr (ret, idt') \<Longrightarrow>
     \<exists>es. issued idt' = issued idt @ es \<and>
       map fst es = (if output = 2 then [91, 92, 93, 94] else if output = 3 then [95, 96, 97, 98]
                     else if output = 0 then [0, 1, 2, 3] else [87, 88, 89, 90])"
  by (auto simp: idt_outdiv_frac_def idt_outdiv_frac_addr_def Let_def to_u16_def
      split: prod.splits if_splits dest!: idt_write_reg_issued)

lemma idt_in_monitor_ctrl_issued:
  "idt_in_monitor_ctrl ops idt val input = (ret, idt') \<Longrightarrow>
     \<exists>es. issued idt' = issued idt @ es \<and>
       map fst es = (if input = 1 then [116, 117, 118] else [113, 114, 115])"
  by (auto simp: idt_in_monitor_ctrl_def Let_def to_u16_def split: prod.splits
      dest!: idt_write_reg_issued)

lemma program_settings_issued:
  assumes "program_settings ops idt s = Inr (ret, idt')"
  shows "\<exists>e0 mid. issued idt' = issued idt @ (112, Some 5, e0) # mid @ [(112, Some 0, ret)] \<and>
     map fst mid =
       [10, 10, 10, 105, 11, 12, 13, 14, 15, 16, 20, 21, 22, 17, 18, 19, 37, 38, 40, 41, 42,
        69, 70, 71, 72, 73, 74, 91, 92, 93, 94, 95, 96, 97, 98, 113, 114, 115, 116, 117, 118]"
  using assms
  apply (clarsimp simp: program_settings_def Let_def split: prod.splits sum.splits)
  apply (drule idt_write_reg_issued idt_ref_input_issued idt_set_mode_issued idt_pre_div_issued
      idt_m1_feedback_issued idt_dsm_int_reg_issued idt_dsm_frac_reg_issued idt_outdiv_int_issued
      idt_outdiv_frac_issued idt_in_monitor_ctrl_issued)+
  apply (clarsimp simp: to_u16_def to_u8_def)
  done

text \<open>
  C8. Whenever \<open>set_clock\<close> returns, the writes it has added to the device begin
  with the value 5 to address 112 (0x0070, calibration off) and end with the value 0
  to the same address (calibration on); the 41 writes between them, which program
  the fields, all go to other addresses.
\<close>

theorem set_clock_calibration_bookends:
  assumes "set_clock ops idt freq_in freq_out = Inr (ret, idt')"
  shows "\<exists>e0 e1 mid. issued idt' = issued idt @ (112, Some 5, e0) # mid @ [(112, Some 0, e1)] \<and>
           length mid = 41 \<and> (\<forall>w \<in> set mid. fst w \<noteq> 112)"
proof -
  from set_clock_runs_calculator [OF assms] obtain settings where
    "program_settings ops idt settings = Inr (ret, idt')"
    by blast
  from program_settings_issued [OF this] obtain e0 mid where
    seq: "issued idt' = issued idt @ (112, Some 5, e0) # mid @ [(112, Some 0, ret)]" and
    addrs: "map fst mid =
       [10, 10, 10, 105, 11, 12, 13, 14, 15, 16, 20, 21, 22, 17, 18, 19, 37, 38, 40, 41, 42,
        69, 70, 71, 72, 73, 74, 91, 92, 93, 94, 95, 96, 97, 98, 113, 114, 115, 116, 117, 118]"
    by (elim exE conjE)
  from addrs have "length (map fst mid) = 41"
    by simp
  then have len: "length mid = 41"
    by simp
  have "\<forall>a \<in> set (map fst mid). a \<noteq> 112"
    unfolding addrs by simp
  then have "\<forall>w \<in> set mid. fst w \<noteq> 112"
    by simp
  with seq len show ?thesis
    by blast
qed

text \<open>The run on the concrete bus: 43 writes, the first and the last to address 112.\<close>

theorem set_clock_calibration_bookends_witness:
  "set_clock eio_bus idt0 40000000 148500000 = Inr (0, \<lparr>regmap = 43, issued = eio_writes\<rparr>) \<and>
   (\<exists>e0 e1 mid. eio_writes = (112, Some 5, e0) # mid @ [(112, Some 0, e1)] \<and> length mid = 41) \<and>
   hd eio_writes = (112, Some 5, 0) \<and> last eio_writes = (112, Some 0, 0)"
proof -
  from set_clock_calibration_bookends [OF set_clock_eio_run]
  have "\<exists>e0 e1 mid. eio_writes = (112, Some 5, e0) # mid @ [(112, Some 0, e1)] \<and> length mid = 41"
    by (auto simp: idt0_def)
  moreover have "hd eio_writes = (112, Some 5, 0)" "last eio_writes = (112, Some 0, 0)"
    by (simp_all add: eio_writes_def)
  ultimately show ?thesis
    using set_clock_eio_run by (intro conjI)
qed

text \<open>
  C9. Whatever status the bus returns for any write, \<open>set_clock\<close> issues the same 43
  writes in the same order, and the value it returns is the status of the last one:
  a failure of an earlier write neither stops the sequence nor reaches the caller.
\<close>

theorem set_clock_continues_after_failure:
  assumes "set_clock ops idt freq_in freq_out = Inr (ret, idt')"
  shows "map fst (issued idt') = map fst (issued idt) @
       [112, 10, 10, 10, 105, 11, 12, 13, 14, 15, 16, 20, 21, 22, 17, 18, 19, 37, 38, 40, 41, 42,
        69, 70, 71, 72, 73, 74, 91, 92, 93, 94, 95, 96, 97, 98, 113, 114, 115, 116, 117, 118, 112] \<and>
     ret = snd (snd (last (issued idt')))"
proof -
  from set_clock_runs_calculator [OF assms] obtain settings where
    "program_settings ops idt settings = Inr (ret, idt')"
    by blast
  from program_settings_issued [OF this] obtain e0 mid where
    seq: "issued idt' = issued idt @ (112, Some 5, e0) # mid @ [(112, Some 0, ret)]" and
    addrs: "map fst mid =
       [10, 10, 10, 105, 11, 12, 13, 14, 15, 16, 20, 21, 22, 17, 18, 19, 37, 38, 40, 41, 42,
        69, 70, 71, 72, 73, 74, 91, 92, 93, 94, 95, 96, 97, 98, 113, 114, 115, 116, 117, 118]"
    by (elim exE conjE)
  show ?thesis
    by (simp add: seq addrs)
qed

text \<open>
  On the concrete bus the fifth write (address 105) fails with -5; all 43 writes are
  issued and \<open>set_clock\<close> returns 0, the status of the last.
\<close>

theorem set_clock_continues_after_failure_witness:
  "set_clock eio_bus idt0 40000000 148500000 = Inr (0, \<lparr>regmap = 43, issued = eio_writes\<rparr>) \<and>
   eio_writes ! 4 = (105, Some 255, - 5) \<and> length eio_writes = 43 \<and>
   map fst eio_writes =
       [112, 10, 10, 10, 105, 11, 12, 13, 14, 15, 16, 20, 21, 22, 17, 18, 19, 37, 38, 40, 41, 42,
        69, 70, 71, 72, 73, 74, 91, 92, 93, 94, 95, 96, 97, 98, 113, 114, 115, 116, 117, 118, 112] \<and>
   (0::int) = snd (snd (last eio_writes))"
proof -
  from set_clock_continues_after_failure [OF set_clock_eio_run]
  have "map fst eio_writes =
       [112, 10, 10, 10, 105, 11, 12, 13, 14, 15, 16, 20, 21, 22, 17, 18, 19, 37, 38, 40, 41, 42,
        69, 70, 71, 72, 73, 74, 91, 92, 93, 94, 95, 96, 97, 98, 113, 114, 115, 116, 117, 118, 112]"
    and "(0::int) = snd (snd (last eio_writes))"
    by (simp_all add: idt0_def)
  moreover have "eio_writes ! 4 = (105, Some 255, - 5)" "length eio_writes = 43"
    by (simp_all add: eio_writes_def)
  ultimately show ?thesis
    using set_clock_eio_run by (intro conjI)
qed

end
